theory Spec2Isabelle
  imports Main "HOL-Library.AList" "HOL-Library.Word"
begin

section \<open>The environment of \<^verbatim>\<open>modules/file_manager.py\<close>\<close>

text \<open>
  The class \<^verbatim>\<open>FileManager\<close> keeps two dictionaries in memory and the bytes of every file on
  disk. Everything it reads from outside is an explicit argument of the model:
  \<^item> each call of \<^verbatim>\<open>datetime.now()\<close> is one argument of type \<open>datetime\<close> (microseconds,
    the resolution of Python's \<^verbatim>\<open>datetime\<close>); a method that reads the clock twice takes two;
  \<^item> \<^verbatim>\<open>str(uuid.uuid4())\<close> is a string argument;
  \<^item> the random generator is the sequence of its raw outputs, read by \<open>randint\<close>;
  \<^item> the disk is a value of type \<open>filesystem\<close>, carried in the state.
\<close>

type_synonym datetime = int
type_synonym timedelta = int
type_synonym byte = "8 word"

text \<open>A Python \<^verbatim>\<open>dict\<close>: keys in insertion order. \<^verbatim>\<open>d.get(k)\<close> is \<open>map_of d k\<close>,
  \<^verbatim>\<open>d[k] = v\<close> is \<open>AList.update k v d\<close>, \<^verbatim>\<open>del d[k]\<close> is \<open>AList.delete k d\<close>,
  \<^verbatim>\<open>d.items()\<close> is the list itself.\<close>

type_synonym ('k, 'v) dict = "('k \<times> 'v) list"

definition timedelta_minutes :: "int \<Rightarrow> timedelta" where
  "timedelta_minutes m = m * 60000000"

definition timedelta_hours :: "int \<Rightarrow> timedelta" where
  "timedelta_hours h = h * 3600000000"

text \<open>\<^verbatim>\<open>delta.total_seconds() > secs\<close> for a whole number of seconds.\<close>

definition total_seconds_gt :: "timedelta \<Rightarrow> int \<Rightarrow> bool" where
  "total_seconds_gt delta secs = (delta > secs * 1000000)"

datatype error = OSError | KeyError | SaveUploadedError | SaveProcessedError
  | DownloadLinkError | TransferCodeError

subsection \<open>Formatting and random numbers\<close>

definition digit_char :: "nat \<Rightarrow> char" where
  "digit_char d = char_of (48 + d)"

fun str_nat :: "nat \<Rightarrow> string" where
  "str_nat n = (if n < 10 then [digit_char n] else str_nat (n div 10) @ [digit_char (n mod 10)])"

text \<open>\<^verbatim>\<open>f"{i}"\<close> for an integer \<open>i\<close>.\<close>

definition format_int :: "int \<Rightarrow> string" where
  "format_int i = (if i < 0 then CHR ''-'' # str_nat (nat (- i)) else str_nat (nat i))"

text \<open>\<^verbatim>\<open>random.randint(a, b)\<close>: some integer of \<open>[a, b]\<close>, chosen by the raw output \<open>r\<close> of
  the generator; every integer of the interval arises.\<close>

definition randint :: "int \<Rightarrow> int \<Rightarrow> nat \<Rightarrow> int" where
  "randint a b r = a + int r mod (b - a + 1)"

subsection \<open>Paths\<close>

text \<open>\<^verbatim>\<open>os.path.join\<close>, \<^verbatim>\<open>os.path.splitext\<close>, \<^verbatim>\<open>os.path.dirname\<close> and
  \<^verbatim>\<open>os.path.basename\<close> of \<^verbatim>\<open>posixpath\<close>.\<close>

definition path_join :: "string \<Rightarrow> string \<Rightarrow> string" where
  "path_join a b =
     (if b \<noteq> [] \<and> hd b = CHR ''/'' then b
      else if a = [] \<or> last a = CHR ''/'' then a @ b
      else a @ CHR ''/'' # b)"

definition basename :: "string \<Rightarrow> string" where
  "basename p = rev (takeWhile (\<lambda>c. c \<noteq> CHR ''/'') (rev p))"

definition dirname :: "string \<Rightarrow> string" where
  "dirname p =
     (let head = rev (dropWhile (\<lambda>c. c \<noteq> CHR ''/'') (rev p))
      in if head \<noteq> [] \<and> (\<exists>c \<in> set head. c \<noteq> CHR ''/'')
         then rev (dropWhile (\<lambda>c. c = CHR ''/'') (rev head))
         else head)"

definition splitext :: "string \<Rightarrow> string \<times> string" where
  "splitext p =
     (let base = basename p;
          ext = rev (takeWhile (\<lambda>c. c \<noteq> CHR ''.'') (rev base));
          stem = take (length base - length ext - 1) base
      in if CHR ''.'' \<in> set base \<and> (\<exists>c \<in> set stem. c \<noteq> CHR ''.'')
         then (take (length p - length ext - 1) p, CHR ''.'' # ext)
         else (p, []))"

subsection \<open>The disk\<close>

text \<open>
  A regular file has its bytes and its modification time. \<open>readable\<close> and \<open>locked\<close> stand
  for what makes \<^verbatim>\<open>open(p, 'rb')\<close> and \<^verbatim>\<open>os.remove(p)\<close> (or a rewrite) raise on a file that
  exists: permissions, an immutable flag, a file held open on another system.
\<close>

record disk_file =
  content :: "byte list"
  mtime :: datetime
  readable :: bool
  locked :: bool

record filesystem =
  dirs :: "string list"
  files :: "(string, disk_file) dict"

definition path_exists :: "filesystem \<Rightarrow> string \<Rightarrow> bool" where
  "path_exists fsys p = (p \<in> set (dirs fsys) \<or> map_of (files fsys) p \<noteq> None)"

definition isfile :: "filesystem \<Rightarrow> string \<Rightarrow> bool" where
  "isfile fsys p = (map_of (files fsys) p \<noteq> None)"

definition os_remove :: "filesystem \<Rightarrow> string \<Rightarrow> error + filesystem" where
  "os_remove fsys p =
     (case map_of (files fsys) p of
        None \<Rightarrow> Inl OSError
      | Some f \<Rightarrow> if locked f then Inl OSError
                  else Inr (fsys\<lparr>files := AList.delete p (files fsys)\<rparr>))"

text \<open>\<^verbatim>\<open>with open(p, "wb") as f: f.write(data)\<close>, at disk time \<open>t\<close>.\<close>

definition open_write :: "filesystem \<Rightarrow> string \<Rightarrow> byte list \<Rightarrow> datetime \<Rightarrow> error + filesystem" where
  "open_write fsys p data t =
     (if dirname p \<notin> set (dirs fsys) \<or> p \<in> set (dirs fsys) then Inl OSError
      else case map_of (files fsys) p of
        None \<Rightarrow> Inr (fsys\<lparr>files := AList.update p
                  \<lparr>content = data, mtime = t, readable = True, locked = False\<rparr> (files fsys)\<rparr>)
      | Some f \<Rightarrow> if locked f then Inl OSError
                  else Inr (fsys\<lparr>files := AList.update p
                         (f\<lparr>content := data, mtime := t\<rparr>) (files fsys)\<rparr>))"

text \<open>\<^verbatim>\<open>with open(p, 'rb') as f: f.read()\<close>.\<close>

definition open_read :: "filesystem \<Rightarrow> string \<Rightarrow> error + byte list" where
  "open_read fsys p =
     (case map_of (files fsys) p of
        None \<Rightarrow> Inl OSError
      | Some f \<Rightarrow> if readable f then Inr (content f) else Inl OSError)"

definition getmtime :: "filesystem \<Rightarrow> string \<Rightarrow> error + datetime" where
  "getmtime fsys p =
     (case map_of (files fsys) p of None \<Rightarrow> Inl OSError | Some f \<Rightarrow> Inr (mtime f))"

definition getsize :: "filesystem \<Rightarrow> string \<Rightarrow> error + int" where
  "getsize fsys p =
     (case map_of (files fsys) p of
        None \<Rightarrow> Inl OSError | Some f \<Rightarrow> Inr (int (length (content f))))"

text \<open>\<^verbatim>\<open>shutil.copy2(src, dst)\<close> copies the bytes and keeps the modification time.\<close>

definition copy2 :: "filesystem \<Rightarrow> string \<Rightarrow> string \<Rightarrow> error + filesystem" where
  "copy2 fsys src dst =
     (case open_read fsys src of
        Inl e \<Rightarrow> Inl e
      | Inr data \<Rightarrow>
          (case getmtime fsys src of
             Inl e \<Rightarrow> Inl e
           | Inr t \<Rightarrow> open_write fsys dst data t))"

text \<open>\<^verbatim>\<open>os.listdir(d)\<close>: the names of the files directly inside \<open>d\<close>. The program creates no
  directory below its own, so the listing holds regular files only.\<close>

definition child_name :: "string \<Rightarrow> string \<Rightarrow> string option" where
  "child_name d p =
     (let n = basename p in if n \<noteq> [] \<and> path_join d n = p then Some n else None)"

definition listdir :: "filesystem \<Rightarrow> string \<Rightarrow> string list" where
  "listdir fsys d = List.map_filter (\<lambda>(p, f). child_name d p) (files fsys)"

section \<open>The state of a \<^verbatim>\<open>FileManager\<close>\<close>

text \<open>
  The values of \<^verbatim>\<open>file_registry\<close> have the keys \<^verbatim>\<open>path\<close>, \<^verbatim>\<open>original_name\<close>,
  \<^verbatim>\<open>created_at\<close>, \<^verbatim>\<open>expires_at\<close>, \<^verbatim>\<open>size\<close> and, when written by
  \<^verbatim>\<open>save_uploaded_file\<close>, \<^verbatim>\<open>is_admin\<close> and \<^verbatim>\<open>file_id\<close>. The values of
  \<^verbatim>\<open>transfer_codes\<close> have \<^verbatim>\<open>file_path\<close>, \<^verbatim>\<open>original_name\<close>, \<^verbatim>\<open>created_at\<close>,
  \<^verbatim>\<open>expires_at\<close>, \<^verbatim>\<open>size\<close> and \<^verbatim>\<open>downloaded\<close>; their fields carry the prefix \<open>tr_\<close>
  where the name is taken already.
\<close>

record file_info =
  path :: string
  original_name :: string
  created_at :: datetime
  expires_at :: datetime
  size_bytes :: int
  is_admin :: "bool option"
  file_id :: "string option"

record transfer_info =
  file_path :: string
  tr_original_name :: string
  tr_created_at :: datetime
  tr_expires_at :: datetime
  tr_size :: int
  downloaded :: bool

record uploaded_file =
  name :: string
  getvalue :: "byte list"

record state =
  temp_dir :: string
  app_temp_dir :: string
  file_registry :: "(string, file_info) dict"
  transfer_codes :: "(string, transfer_info) dict"
  expiration_minutes :: int
  admin_expiration_hours :: int
  fs :: filesystem

text \<open>\<^verbatim>\<open>__init__\<close>, with \<open>tmp\<close> the value of \<^verbatim>\<open>tempfile.gettempdir()\<close>. \<^verbatim>\<open>os.makedirs\<close> with
  \<^verbatim>\<open>exist_ok=True\<close> raises when a regular file has the directory's name.\<close>

definition init :: "string \<Rightarrow> filesystem \<Rightarrow> error + state" where
  "init tmp fsys =
     (let app = path_join tmp ''pdf_processor''
      in if map_of (files fsys) app \<noteq> None then Inl OSError
         else Inr \<lparr>temp_dir = tmp, app_temp_dir = app, file_registry = [],
                   transfer_codes = [], expiration_minutes = 30, admin_expiration_hours = 48,
                   fs = fsys\<lparr>dirs := List.insert app (dirs fsys)\<rparr>\<rparr>)"

section \<open>The methods of \<^verbatim>\<open>FileManager\<close>\<close>

text \<open>Every method takes the state and returns its result with the state it leaves. A
  method that raises returns \<open>Inl\<close>. \<open>uid\<close> is the value of \<^verbatim>\<open>str(uuid.uuid4())\<close>.\<close>

subsection \<open>The file registry\<close>

text \<open>\<open>t_disk\<close> is the time the disk stamps on the written file, \<open>t_exp\<close> and \<open>t_cre\<close> the two
  readings of \<^verbatim>\<open>datetime.now()\<close>, in the order the method takes them.\<close>

definition save_uploaded_file ::
  "state \<Rightarrow> uploaded_file \<Rightarrow> bool \<Rightarrow> string \<Rightarrow> datetime \<Rightarrow> datetime \<Rightarrow> datetime
     \<Rightarrow> (error + string) \<times> state" where
  "save_uploaded_file s uf adm uid t_disk t_exp t_cre =
     (let fid = uid;
          file_extension = snd (splitext (name uf));
          temp_filename = fid @ file_extension;
          temp_path = path_join (app_temp_dir s) temp_filename
      in case open_write (fs s) temp_path (getvalue uf) t_disk of
           Inl e \<Rightarrow> (Inl SaveUploadedError, s)
         | Inr fs' \<Rightarrow>
             (let expiration_time =
                    (if adm then t_exp + timedelta_hours (admin_expiration_hours s)
                     else t_exp + timedelta_minutes (expiration_minutes s))
              in (Inr temp_path,
                  s\<lparr>fs := fs',
                    file_registry := AList.update fid
                      \<lparr>path = temp_path, original_name = name uf, created_at = t_cre,
                       expires_at = expiration_time,
                       size_bytes = int (length (getvalue uf)),
                       is_admin = Some adm, file_id = Some fid\<rparr>
                      (file_registry s)\<rparr>)))"

definition save_processed_file ::
  "state \<Rightarrow> string \<Rightarrow> string \<Rightarrow> string \<Rightarrow> datetime \<Rightarrow> datetime \<Rightarrow> (error + string) \<times> state" where
  "save_processed_file s source_path output_name uid t_cre t_exp =
     (let fid = uid;
          file_extension = snd (splitext output_name);
          temp_filename = fid @ file_extension;
          temp_path = path_join (app_temp_dir s) temp_filename
      in case copy2 (fs s) source_path temp_path of
           Inl e \<Rightarrow> (Inl SaveProcessedError, s)
         | Inr fs' \<Rightarrow>
             (case getsize fs' temp_path of
                Inl e \<Rightarrow> (Inl SaveProcessedError, s\<lparr>fs := fs'\<rparr>)
              | Inr file_size \<Rightarrow>
                  (Inr temp_path,
                   s\<lparr>fs := fs',
                     file_registry := AList.update fid
                       \<lparr>path = temp_path, original_name = output_name, created_at = t_cre,
                        expires_at = t_exp + timedelta_minutes (expiration_minutes s),
                        size_bytes = file_size, is_admin = None, file_id = None\<rparr>
                       (file_registry s)\<rparr>)))"

definition create_download_link ::
  "state \<Rightarrow> string \<Rightarrow> string \<Rightarrow> string \<Rightarrow> datetime \<Rightarrow> datetime \<Rightarrow> (error + string) \<times> state" where
  "create_download_link s fpath download_name uid t_cre t_exp =
     (case save_processed_file s fpath download_name uid t_cre t_exp of
        (Inl e, s') \<Rightarrow> (Inl DownloadLinkError, s')
      | (Inr managed_path, s') \<Rightarrow> (Inr managed_path, s'))"

text \<open>The first loop of \<^verbatim>\<open>cleanup_expired_files\<close>: the ids whose entry has
  \<^verbatim>\<open>current_time > file_info['expires_at']\<close>.\<close>

definition expired_files :: "(string, file_info) dict \<Rightarrow> datetime \<Rightarrow> string list" where
  "expired_files reg current_time =
     map fst (filter (\<lambda>(fid, info). current_time > expires_at info) reg)"

text \<open>The second loop. The inner \<^verbatim>\<open>try\<close> swallows a failure of \<^verbatim>\<open>os.remove\<close>; a missing
  key would raise out of the loop, with the state as it is then.\<close>

fun remove_expired :: "string list \<Rightarrow> state \<Rightarrow> error option \<times> state" where
  "remove_expired [] s = (None, s)"
| "remove_expired (fid # rest) s =
     (case map_of (file_registry s) fid of
        None \<Rightarrow> (Some KeyError, s)
      | Some info \<Rightarrow>
          (let fpath = path info;
               fs' = (if path_exists (fs s) fpath
                      then (case os_remove (fs s) fpath of Inl e \<Rightarrow> fs s | Inr f \<Rightarrow> f)
                      else fs s)
           in remove_expired rest
                (s\<lparr>fs := fs', file_registry := AList.delete fid (file_registry s)\<rparr>)))"

text \<open>The loop of \<^verbatim>\<open>_cleanup_orphaned_files\<close> over the listing of the directory.\<close>

fun orphan_loop ::
  "string \<Rightarrow> string list \<Rightarrow> datetime \<Rightarrow> int \<Rightarrow> string list \<Rightarrow> filesystem \<Rightarrow> filesystem" where
  "orphan_loop d registered_paths current_time exp_minutes [] fsys = fsys"
| "orphan_loop d registered_paths current_time exp_minutes (filename # rest) fsys =
     (let fpath = path_join d filename
      in if fpath \<in> set registered_paths
         then orphan_loop d registered_paths current_time exp_minutes rest fsys
         else (case getmtime fsys fpath of
                 Inl e \<Rightarrow> orphan_loop d registered_paths current_time exp_minutes rest fsys
               | Inr file_modified \<Rightarrow>
                   (let file_age = current_time - file_modified
                    in if total_seconds_gt file_age (exp_minutes * 60)
                       then (case os_remove fsys fpath of
                               Inl e \<Rightarrow>
                                 orphan_loop d registered_paths current_time exp_minutes rest fsys
                             | Inr fs' \<Rightarrow>
                                 orphan_loop d registered_paths current_time exp_minutes rest fs')
                       else orphan_loop d registered_paths current_time exp_minutes rest fsys)))"

definition cleanup_orphaned_files :: "state \<Rightarrow> datetime \<Rightarrow> state" where
  "cleanup_orphaned_files s current_time =
     (if \<not> path_exists (fs s) (app_temp_dir s) then s
      else (let registered_paths = map (\<lambda>(fid, info). path info) (file_registry s)
            in s\<lparr>fs := orphan_loop (app_temp_dir s) registered_paths current_time
                          (expiration_minutes s) (listdir (fs s) (app_temp_dir s)) (fs s)\<rparr>))"

text \<open>\<^verbatim>\<open>cleanup_expired_files\<close> returns nothing. \<open>t_now\<close> is its reading of the clock,
  \<open>t_orph\<close> the one \<^verbatim>\<open>_cleanup_orphaned_files\<close> takes afterwards.\<close>

definition cleanup_expired_files :: "state \<Rightarrow> datetime \<Rightarrow> datetime \<Rightarrow> state" where
  "cleanup_expired_files s t_now t_orph =
     (case remove_expired (expired_files (file_registry s) t_now) s of
        (Some e, s') \<Rightarrow> s'
      | (None, s') \<Rightarrow> cleanup_orphaned_files s' t_orph)"

definition get_file_info :: "state \<Rightarrow> string \<Rightarrow> file_info option \<times> state" where
  "get_file_info s fid = (map_of (file_registry s) fid, s)"

definition get_all_files :: "state \<Rightarrow> (string, file_info) dict \<times> state" where
  "get_all_files s = (file_registry s, s)"

text \<open>The two loops of \<^verbatim>\<open>force_cleanup_all\<close>.\<close>

fun remove_registered :: "(string, file_info) dict \<Rightarrow> filesystem \<Rightarrow> filesystem" where
  "remove_registered [] fsys = fsys"
| "remove_registered ((fid, info) # rest) fsys =
     (if path_exists fsys (path info)
      then (case os_remove fsys (path info) of
              Inl e \<Rightarrow> remove_registered rest fsys
            | Inr fs' \<Rightarrow> remove_registered rest fs')
      else remove_registered rest fsys)"

fun remove_listed :: "string \<Rightarrow> string list \<Rightarrow> filesystem \<Rightarrow> filesystem" where
  "remove_listed d [] fsys = fsys"
| "remove_listed d (filename # rest) fsys =
     (let fpath = path_join d filename
      in if isfile fsys fpath
         then (case os_remove fsys fpath of
                 Inl e \<Rightarrow> remove_listed d rest fsys
               | Inr fs' \<Rightarrow> remove_listed d rest fs')
         else remove_listed d rest fsys)"

definition force_cleanup_all :: "state \<Rightarrow> state" where
  "force_cleanup_all s =
     (let fs1 = remove_registered (file_registry s) (fs s);
          fs2 = (if path_exists fs1 (app_temp_dir s)
                 then remove_listed (app_temp_dir s) (listdir fs1 (app_temp_dir s)) fs1
                 else fs1)
      in s\<lparr>fs := fs2, file_registry := []\<rparr>)"

text \<open>The loop of \<^verbatim>\<open>extend_file_expiration\<close>: the first entry with the path is extended.\<close>

fun extend_loop ::
  "(string, file_info) dict \<Rightarrow> string \<Rightarrow> int \<Rightarrow> bool \<times> (string, file_info) dict" where
  "extend_loop [] fpath additional_minutes = (False, [])"
| "extend_loop ((fid, info) # rest) fpath additional_minutes =
     (if path info = fpath
      then (True, (fid, info\<lparr>expires_at :=
                     expires_at info + timedelta_minutes additional_minutes\<rparr>) # rest)
      else (case extend_loop rest fpath additional_minutes of
              (found, rest') \<Rightarrow> (found, (fid, info) # rest')))"

definition extend_file_expiration :: "state \<Rightarrow> string \<Rightarrow> int \<Rightarrow> bool \<times> state" where
  "extend_file_expiration s fpath additional_minutes =
     (case extend_loop (file_registry s) fpath additional_minutes of
        (found, reg') \<Rightarrow> (found, s\<lparr>file_registry := reg'\<rparr>))"

text \<open>\<^verbatim>\<open>delete_file\<close>: a failure of \<^verbatim>\<open>os.remove\<close> reaches the \<^verbatim>\<open>except\<close> of the method,
  which returns \<^verbatim>\<open>False\<close>.\<close>

definition delete_file :: "state \<Rightarrow> string \<Rightarrow> bool \<times> state" where
  "delete_file s fid =
     (case map_of (file_registry s) fid of
        Some info \<Rightarrow>
          (let fpath = path info
           in if path_exists (fs s) fpath
              then (case os_remove (fs s) fpath of
                      Inl e \<Rightarrow> (False, s)
                    | Inr fs' \<Rightarrow>
                        (True, s\<lparr>fs := fs',
                                 file_registry := AList.delete fid (file_registry s)\<rparr>))
              else (True, s\<lparr>file_registry := AList.delete fid (file_registry s)\<rparr>))
      | None \<Rightarrow> (False, s))"

subsection \<open>The transfer codes\<close>

text \<open>The loop \<^verbatim>\<open>while True\<close> of \<^verbatim>\<open>create_transfer_code\<close>. \<open>rng k\<close> is the raw output of the
  generator at the \<open>k\<close>-th draw. The loop has no bound: where it does not end, the value
  is \<open>None\<close>.\<close>

partial_function (option) generate_code ::
  "(string, transfer_info) dict \<Rightarrow> (nat \<Rightarrow> nat) \<Rightarrow> nat \<Rightarrow> string option" where
  "generate_code codes rng k =
     (let code = format_int (randint 1000 9999 (rng k))
      in if map_of codes code = None then Some code
         else generate_code codes rng (Suc k))"

text \<open>\<open>None\<close>: the method does not return. \<open>t_disk\<close> is the disk's time stamp, \<open>t_cre\<close> and
  \<open>t_exp\<close> the two readings of the clock.\<close>

definition create_transfer_code ::
  "state \<Rightarrow> uploaded_file \<Rightarrow> (nat \<Rightarrow> nat) \<Rightarrow> string \<Rightarrow> datetime \<Rightarrow> datetime \<Rightarrow> datetime
     \<Rightarrow> ((error + string) \<times> state) option" where
  "create_transfer_code s uf rng uid t_disk t_cre t_exp =
     (case generate_code (transfer_codes s) rng 0 of
        None \<Rightarrow> None
      | Some code \<Rightarrow>
          (let fid = uid;
               file_extension = snd (splitext (name uf));
               temp_filename = ''transfer_'' @ fid @ file_extension;
               temp_path = path_join (app_temp_dir s) temp_filename
           in case open_write (fs s) temp_path (getvalue uf) t_disk of
                Inl e \<Rightarrow> Some (Inl TransferCodeError, s)
              | Inr fs' \<Rightarrow>
                  Some (Inr code,
                        s\<lparr>fs := fs',
                          transfer_codes := AList.update code
                            \<lparr>file_path = temp_path, tr_original_name = name uf,
                             tr_created_at = t_cre,
                             tr_expires_at = t_exp + timedelta_hours 24,
                             tr_size = int (length (getvalue uf)),
                             downloaded = False\<rparr>
                            (transfer_codes s)\<rparr>)))"

definition get_file_by_code :: "state \<Rightarrow> string \<Rightarrow> transfer_info option \<times> state" where
  "get_file_by_code s code = (map_of (transfer_codes s) code, s)"

definition download_by_code ::
  "state \<Rightarrow> string \<Rightarrow> datetime \<Rightarrow> (byte list \<times> string) option \<times> state" where
  "download_by_code s code t_now =
     (case map_of (transfer_codes s) code of
        Some info \<Rightarrow>
          (if t_now > tr_expires_at info then (None, s)
           else if \<not> path_exists (fs s) (file_path info) then (None, s)
           else (case open_read (fs s) (file_path info) of
                   Inl e \<Rightarrow> (None, s)
                 | Inr file_data \<Rightarrow>
                     (Some (file_data, tr_original_name info),
                      s\<lparr>transfer_codes := AList.update code (info\<lparr>downloaded := True\<rparr>)
                                            (transfer_codes s)\<rparr>)))
      | None \<Rightarrow> (None, s))"

subsection \<open>Reachable states\<close>

text \<open>A state is reachable when it comes from \<^verbatim>\<open>__init__\<close> by calls of the methods, with any
  arguments and any readings of the clock, the generator and \<^verbatim>\<open>uuid4\<close>, and by changes that
  other programs make to the disk. \<^verbatim>\<open>get_storage_stats\<close> only reads the state.\<close>

inductive reachable :: "state \<Rightarrow> bool" where
  r_init: "init tmp fsys = Inr s \<Longrightarrow> reachable s"
| r_disk: "reachable s \<Longrightarrow> reachable (s\<lparr>fs := fsys\<rparr>)"
| r_save_uploaded:
    "reachable s \<Longrightarrow> reachable (snd (save_uploaded_file s uf adm uid t_disk t_exp t_cre))"
| r_save_processed:
    "reachable s \<Longrightarrow> reachable (snd (save_processed_file s src out uid t_cre t_exp))"
| r_download_link:
    "reachable s \<Longrightarrow> reachable (snd (create_download_link s src out uid t_cre t_exp))"
| r_cleanup: "reachable s \<Longrightarrow> reachable (cleanup_expired_files s t_now t_orph)"
| r_get_info: "reachable s \<Longrightarrow> reachable (snd (get_file_info s fid))"
| r_get_all: "reachable s \<Longrightarrow> reachable (snd (get_all_files s))"
| r_force: "reachable s \<Longrightarrow> reachable (force_cleanup_all s)"
| r_extend: "reachable s \<Longrightarrow> reachable (snd (extend_file_expiration s fpath mins))"
| r_delete: "reachable s \<Longrightarrow> reachable (snd (delete_file s fid))"
| r_create_code:
    "reachable s \<Longrightarrow> create_transfer_code s uf rng uid t_disk t_cre t_exp = Some (res, s')
       \<Longrightarrow> reachable s'"
| r_peek: "reachable s \<Longrightarrow> reachable (snd (get_file_by_code s code))"
| r_download: "reachable s \<Longrightarrow> reachable (snd (download_by_code s code t_now))"

section \<open>A session of the program\<close>

text \<open>
  The values the examples below run on: an empty disk with the system's temporary
  directory, the manager \<^verbatim>\<open>__init__\<close> builds on it, a four-byte upload named
  \<^verbatim>\<open>a.pdf\<close>, and the states the manager is in after the upload is sent through
  \<^verbatim>\<open>create_transfer_code\<close> or stored through \<^verbatim>\<open>save_uploaded_file\<close>, both at time 0.
\<close>

definition disk0 :: filesystem where
  "disk0 = \<lparr>dirs = [''/tmp''], files = []\<rparr>"

definition fm0 :: state where
  "fm0 = \<lparr>temp_dir = ''/tmp'', app_temp_dir = ''/tmp/pdf_processor'', file_registry = [],
          transfer_codes = [], expiration_minutes = 30, admin_expiration_hours = 48,
          fs = \<lparr>dirs = [''/tmp/pdf_processor'', ''/tmp''], files = []\<rparr>\<rparr>"

definition upload_a :: uploaded_file where
  "upload_a = \<lparr>name = ''a.pdf'', getvalue = [37, 80, 68, 70]\<rparr>"

definition uid_a :: string where
  "uid_a = ''0f8fad5b-d9cb-469f-a165-70867728950e''"

definition blob_a :: disk_file where
  "blob_a = \<lparr>content = [37, 80, 68, 70], mtime = 0, readable = True, locked = False\<rparr>"

text \<open>A generator whose every draw gives 1234, and one that gives 1234 and then 5678.\<close>

definition draws_234 :: "nat \<Rightarrow> nat" where
  "draws_234 k = 234"

definition draws_retry :: "nat \<Rightarrow> nat" where
  "draws_retry k = (if k = 0 then 234 else 4678)"

definition path_sent :: string where
  "path_sent = ''/tmp/pdf_processor/transfer_0f8fad5b-d9cb-469f-a165-70867728950e.pdf''"

definition transfer_a :: transfer_info where
  "transfer_a =
     \<lparr>file_path = path_sent, tr_original_name = ''a.pdf'', tr_created_at = 0,
      tr_expires_at = 86400000000, tr_size = 4, downloaded = False\<rparr>"

definition fm_sent :: state where
  "fm_sent =
     fm0\<lparr>fs := \<lparr>dirs = [''/tmp/pdf_processor'', ''/tmp''], files = [(path_sent, blob_a)]\<rparr>,
         transfer_codes := [(''1234'', transfer_a)]\<rparr>"

text \<open>Every code the generator can draw is active.\<close>

definition fm_full :: state where
  "fm_full =
     fm0\<lparr>transfer_codes := map (\<lambda>n. (format_int (int n), transfer_a)) [1000..<10000]\<rparr>"

definition path_saved :: string where
  "path_saved = ''/tmp/pdf_processor/0f8fad5b-d9cb-469f-a165-70867728950e.pdf''"

definition info_a :: file_info where
  "info_a =
     \<lparr>path = path_saved, original_name = ''a.pdf'', created_at = 0,
      expires_at = 1800000000, size_bytes = 4, is_admin = Some False, file_id = Some uid_a\<rparr>"

definition fm_saved :: state where
  "fm_saved =
     fm0\<lparr>fs := \<lparr>dirs = [''/tmp/pdf_processor'', ''/tmp''], files = [(path_saved, blob_a)]\<rparr>,
         file_registry := [(uid_a, info_a)]\<rparr>"

text \<open>The stored file can no longer be removed: \<^verbatim>\<open>os.remove\<close> raises on it.\<close>

definition fm_locked :: state where
  "fm_locked =
     fm_saved\<lparr>fs := \<lparr>dirs = [''/tmp/pdf_processor'', ''/tmp''],
                      files = [(path_saved, blob_a\<lparr>locked := True\<rparr>)]\<rparr>\<rparr>"

section \<open>Decimal strings and random draws\<close>

declare str_nat.simps [simp del]

lemma digit_char_neq0: "0 < d \<Longrightarrow> d < 10 \<Longrightarrow> digit_char d \<noteq> CHR ''0''"
proof
  assume d: "0 < d" "d < 10" and eq: "digit_char d = CHR ''0''"
  from eq have "(of_char (char_of (48 + d)) :: nat) = of_char (CHR ''0'')"
    by (simp add: digit_char_def)
  with d show False by (simp add: of_char_of)
qed

lemma str_nat_not_Nil: "str_nat n \<noteq> []"
  by (subst str_nat.simps) simp

lemma hd_str_nat: "0 < n \<Longrightarrow> hd (str_nat n) \<noteq> CHR ''0''"
proof (induction n rule: str_nat.induct)
  case (1 n)
  show ?case
  proof (cases "n < 10")
    case True
    with "1.prems" show ?thesis
      by (subst str_nat.simps) (simp add: digit_char_neq0)
  next
    case False
    then have "0 < n div 10" by simp
    with "1.IH" False have "hd (str_nat (n div 10)) \<noteq> CHR ''0''" by simp
    with False show ?thesis
      by (subst str_nat.simps) (simp add: str_nat_not_Nil)
  qed
qed

lemma length_str_nat_small: "n < 10 \<Longrightarrow> length (str_nat n) = 1"
  by (subst str_nat.simps) simp

lemma length_str_nat_step: "10 \<le> n \<Longrightarrow> length (str_nat n) = Suc (length (str_nat (n div 10)))"
  by (subst str_nat.simps) simp

lemma length_str_nat_lt_1000: "n < 1000 \<Longrightarrow> length (str_nat n) < 4"
proof -
  assume n: "n < 1000"
  show ?thesis
  proof (cases "n < 10")
    case True then show ?thesis by (simp add: length_str_nat_small)
  next
    case False
    note n10 = this
    show ?thesis
    proof (cases "n div 10 < 10")
      case True with n10 show ?thesis by (simp add: length_str_nat_step length_str_nat_small)
    next
      case False
      moreover from n have "n div 10 div 10 < 10" by simp
      ultimately show ?thesis using n10
        by (simp add: length_str_nat_step length_str_nat_small)
    qed
  qed
qed

lemma length_str_nat_4: "1000 \<le> n \<Longrightarrow> n \<le> 9999 \<Longrightarrow> length (str_nat n) = 4"
proof -
  assume n: "1000 \<le> n" "n \<le> 9999"
  then have a: "10 \<le> n" "10 \<le> n div 10" "10 \<le> n div 10 div 10" "n div 10 div 10 div 10 < 10"
    by simp_all
  then show ?thesis
    by (simp add: length_str_nat_step length_str_nat_small)
qed

lemma randint_code_range: "1000 \<le> randint 1000 9999 r \<and> randint 1000 9999 r \<le> 9999"
  by (simp add: randint_def)

lemma randint_onto: "a \<le> n \<Longrightarrow> n \<le> b \<Longrightarrow> randint a b (nat (n - a)) = n"
  by (simp add: randint_def)

subsection \<open>The retry loop\<close>

lemma generate_code_Some:
  assumes "generate_code codes rng k = Some c"
  shows "map_of codes c = None \<and> (\<exists>j\<ge>k. c = format_int (randint 1000 9999 (rng j)))"
proof (rule generate_code.raw_induct
    [where P = "\<lambda>codes rng k c. map_of codes c = None \<and>
                  (\<exists>j\<ge>k. c = format_int (randint 1000 9999 (rng j)))", OF _ assms])
  fix gen :: "(string, transfer_info) dict \<Rightarrow> (nat \<Rightarrow> nat) \<Rightarrow> nat \<Rightarrow> string option"
    and codes rng k c
  assume IH: "\<And>codes rng k c. gen codes rng k = Some c \<Longrightarrow>
      map_of codes c = None \<and> (\<exists>j\<ge>k. c = format_int (randint 1000 9999 (rng j)))"
    and body: "(let code = format_int (randint 1000 9999 (rng k))
        in if map_of codes code = None then Some code else gen codes rng (Suc k)) = Some c"
  show "map_of codes c = None \<and> (\<exists>j\<ge>k. c = format_int (randint 1000 9999 (rng j)))"
  proof (cases "map_of codes (format_int (randint 1000 9999 (rng k))) = None")
    case True
    with body have "c = format_int (randint 1000 9999 (rng k))" by simp
    with True show ?thesis by auto
  next
    case False
    with body have "gen codes rng (Suc k) = Some c" by simp
    from IH [OF this] obtain j where j: "Suc k \<le> j" "map_of codes c = None"
      "c = format_int (randint 1000 9999 (rng j))" by blast
    from j(1) have "k \<le> j" by simp
    with j show ?thesis by blast
  qed
qed

lemma generate_code_free:
  "map_of codes (format_int (randint 1000 9999 (rng (k + d)))) = None \<Longrightarrow>
     generate_code codes rng k \<noteq> None"
proof (induction d arbitrary: k)
  case 0
  then show ?case by (subst generate_code.simps) simp
next
  case (Suc d)
  from Suc.prems have "map_of codes (format_int (randint 1000 9999 (rng (Suc k + d)))) = None"
    by simp
  from Suc.IH [OF this] show ?case
    by (subst generate_code.simps) (simp add: Let_def)
qed

lemma generate_code_None:
  assumes "\<forall>j\<ge>k. map_of codes (format_int (randint 1000 9999 (rng j))) \<noteq> None"
  shows "generate_code codes rng k = None"
proof (cases "generate_code codes rng k")
  case None then show ?thesis .
next
  case (Some c)
  from generate_code_Some [OF this] assms show ?thesis by auto
qed

lemma generate_code_first:
  "map_of codes (format_int (randint 1000 9999 (rng k))) = None \<Longrightarrow>
     generate_code codes rng k = Some (format_int (randint 1000 9999 (rng k)))"
  by (subst generate_code.simps) simp

subsection \<open>Four-digit codes\<close>

lemma digit_char_eval:
  "digit_char (Suc 0) = CHR ''1''" "digit_char 2 = CHR ''2''" "digit_char 3 = CHR ''3''"
  "digit_char 4 = CHR ''4''" "digit_char 5 = CHR ''5''" "digit_char 6 = CHR ''6''"
  "digit_char 7 = CHR ''7''" "digit_char 8 = CHR ''8''"
  by code_simp+

lemma str_nat_4:
  assumes "1000 \<le> n" "n \<le> 9999"
  shows "str_nat n = [digit_char (n div 10 div 10 div 10), digit_char (n div 10 div 10 mod 10),
                      digit_char (n div 10 mod 10), digit_char (n mod 10)]"
proof -
  from assms have a: "\<not> n < 10" "\<not> n div 10 < 10" "\<not> n div 10 div 10 < 10"
    "n div 10 div 10 div 10 < 10"
    by simp_all
  show ?thesis
    apply (subst str_nat.simps, simp only: a if_False)
    apply (subst str_nat.simps, simp only: a if_False)
    apply (subst str_nat.simps, simp only: a if_False)
    apply (subst str_nat.simps, simp only: a if_True)
    apply simp
    done
qed

lemma code_1234: "format_int (randint 1000 9999 234) = ''1234''"
  by (simp add: format_int_def randint_def str_nat_4 digit_char_eval)

lemma code_5678: "format_int (randint 1000 9999 4678) = ''5678''"
  by (simp add: format_int_def randint_def str_nat_4 digit_char_eval)

section \<open>The session, step by step\<close>

lemmas session_defs = disk0_def fm0_def upload_a_def blob_a_def
  transfer_a_def fm_sent_def info_a_def fm_saved_def fm_locked_def

lemma splitext_a: "splitext ''a.pdf'' = (''a'', ''.pdf'')"
  by (simp add: splitext_def basename_def)

lemma join_sent_raw:
  "path_join ''/tmp/pdf_processor'' (''transfer_'' @ uid_a @ ''.pdf'') = path_sent"
  by (simp add: path_join_def uid_a_def path_sent_def)

lemmas join_sent = join_sent_raw [simplified]

lemma join_saved: "path_join ''/tmp/pdf_processor'' (uid_a @ ''.pdf'') = path_saved"
  by (simp add: path_join_def uid_a_def path_saved_def)

lemma dirname_sent: "dirname path_sent = ''/tmp/pdf_processor''"
  by (simp add: dirname_def path_sent_def)

lemma dirname_saved: "dirname path_saved = ''/tmp/pdf_processor''"
  by (simp add: dirname_def path_saved_def)

lemma path_sent_neq: "path_sent \<noteq> ''/tmp/pdf_processor''" "path_sent \<noteq> ''/tmp''"
  by (simp_all add: path_sent_def)

lemma path_saved_neq: "path_saved \<noteq> ''/tmp/pdf_processor''" "path_saved \<noteq> ''/tmp''"
  by (simp_all add: path_saved_def)

lemma child_sent_raw:
  "child_name ''/tmp/pdf_processor'' path_sent = Some (''transfer_'' @ uid_a @ ''.pdf'')"
  by (simp add: child_name_def basename_def path_join_def uid_a_def path_sent_def)

lemmas child_sent = child_sent_raw [simplified]

lemma init_fm0: "init ''/tmp'' disk0 = Inr fm0"
  by (simp add: init_def Let_def disk0_def fm0_def path_join_def)

lemma create_fm0:
  "create_transfer_code fm0 upload_a draws_234 uid_a 0 0 0 = Some (Inr ''1234'', fm_sent)"
  by (simp add: create_transfer_code_def generate_code_first draws_234_def code_1234
      session_defs splitext_a join_sent dirname_sent path_sent_neq open_write_def
      timedelta_hours_def Let_def)

lemma save_fm0:
  "save_uploaded_file fm0 upload_a False uid_a 0 0 0 = (Inr path_saved, fm_saved)"
  by (simp add: save_uploaded_file_def session_defs splitext_a join_saved dirname_saved
      path_saved_neq open_write_def timedelta_minutes_def Let_def)

lemma download_fm_sent:
  "download_by_code fm_sent ''1234'' (timedelta_minutes 1) =
     (Some ([37, 80, 68, 70], ''a.pdf''),
      fm_sent\<lparr>transfer_codes := [(''1234'', transfer_a\<lparr>downloaded := True\<rparr>)]\<rparr>)"
  by (simp add: download_by_code_def session_defs path_exists_def open_read_def
      timedelta_minutes_def)

lemma cleanup_fm_sent:
  "cleanup_expired_files fm_sent (timedelta_minutes 31) (timedelta_minutes 31) =
     fm_sent\<lparr>fs := \<lparr>dirs = [''/tmp/pdf_processor'', ''/tmp''], files = []\<rparr>\<rparr>"
  by (simp add: cleanup_expired_files_def expired_files_def cleanup_orphaned_files_def
      session_defs path_exists_def listdir_def child_sent join_sent List.map_filter_def
      getmtime_def os_remove_def total_seconds_gt_def timedelta_minutes_def Let_def)

lemma delete_fm_locked: "delete_file fm_locked uid_a = (False, fm_locked)"
  by (simp add: delete_file_def session_defs path_exists_def os_remove_def Let_def)

section \<open>The transfer codes\<close>

subsection \<open>Reading a code\<close>

text \<open>
  Claim C10. \<^verbatim>\<open>get_file_by_code\<close> checks no expiry and changes nothing: a code with a record
  in \<^verbatim>\<open>transfer_codes\<close> gets the whole record and the state it was called in, also at a time
  past the record's \<^verbatim>\<open>expires_at\<close>, when \<^verbatim>\<open>download_by_code\<close> refuses the same code; a code
  with no record gets \<^verbatim>\<open>None\<close>, again with the state unchanged.
\<close>

theorem get_file_by_code_peek:
  "(map_of (transfer_codes s) code = Some info \<longrightarrow>
      get_file_by_code s code = (Some info, s) \<and>
      (tr_expires_at info < t_now \<longrightarrow> download_by_code s code t_now = (None, s))) \<and>
   (map_of (transfer_codes s) code = None \<longrightarrow> get_file_by_code s code = (None, s))"
  by (simp add: get_file_by_code_def download_by_code_def)

theorem get_file_by_code_peek_witness:
  "get_file_by_code fm_sent ''1234'' = (Some transfer_a, fm_sent) \<and>
   tr_expires_at transfer_a < timedelta_hours 25 \<and>
   download_by_code fm_sent ''1234'' (timedelta_hours 25) = (None, fm_sent) \<and>
   get_file_by_code fm_sent ''5678'' = (None, fm_sent)"
  using get_file_by_code_peek [of fm_sent "''1234''" transfer_a "timedelta_hours 25"]
    get_file_by_code_peek [of fm_sent "''5678''" transfer_a 0]
  by (simp add: fm_sent_def fm0_def transfer_a_def timedelta_hours_def)

subsection \<open>Redeeming a code\<close>

text \<open>
  Claim C4, as the specification has it, fails: \<^verbatim>\<open>download_by_code\<close> answers \<^verbatim>\<open>None\<close> both
  for the code 5678 that was never issued and for the code 1234 whose record is there and
  has expired, 25 hours after it was issued.
\<close>

theorem download_by_code_counterexample:
  "create_transfer_code fm0 upload_a draws_234 uid_a 0 0 0 = Some (Inr ''1234'', fm_sent) \<and>
   map_of (transfer_codes fm_sent) ''1234'' = Some transfer_a \<and>
   tr_expires_at transfer_a < timedelta_hours 25 \<and>
   map_of (transfer_codes fm_sent) ''5678'' = None \<and>
   download_by_code fm_sent ''1234'' (timedelta_hours 25) =
     download_by_code fm_sent ''5678'' (timedelta_hours 25)"
  using create_fm0
  by (simp add: download_by_code_def fm_sent_def fm0_def transfer_a_def timedelta_hours_def)

text \<open>
  Claim C4, amended. \<^verbatim>\<open>download_by_code\<close> has one failure result: it returns \<^verbatim>\<open>None\<close> and
  leaves the state as it is for a code with no record and for a code whose record has
  \<^verbatim>\<open>expires_at\<close> in the past. The caller tells the two apart through \<^verbatim>\<open>get_file_by_code\<close>,
  which returns the record in the second case and \<^verbatim>\<open>None\<close> in the first.
\<close>

theorem download_by_code_failure:
  "(map_of (transfer_codes s) code = None \<longrightarrow>
      download_by_code s code t_now = (None, s) \<and> fst (get_file_by_code s code) = None) \<and>
   (map_of (transfer_codes s) code = Some info \<and> tr_expires_at info < t_now \<longrightarrow>
      download_by_code s code t_now = (None, s) \<and> fst (get_file_by_code s code) = Some info)"
  by (simp add: get_file_by_code_def download_by_code_def)

theorem download_by_code_failure_witness:
  "download_by_code fm_sent ''5678'' (timedelta_hours 25) = (None, fm_sent) \<and>
   fst (get_file_by_code fm_sent ''5678'') = None \<and>
   download_by_code fm_sent ''1234'' (timedelta_hours 25) = (None, fm_sent) \<and>
   fst (get_file_by_code fm_sent ''1234'') = Some transfer_a"
  using download_by_code_failure [of fm_sent "''5678''" "timedelta_hours 25" transfer_a]
    download_by_code_failure [of fm_sent "''1234''" "timedelta_hours 25" transfer_a]
  by (simp add: fm_sent_def fm0_def transfer_a_def timedelta_hours_def)

end
